theory Spec2Isabelle
  imports Main "HOL-Library.Sublist"
begin

section \<open>Error values\<close>

text \<open>
  The package declares nine sentinel errors with \<^verbatim>\<open>errors.New\<close>. Go compares such
  values by identity, so each sentinel is a constructor of its own: no error made
  elsewhere is equal to one of them, whatever its text. \<open>errorString\<close> is an error
  created outside the package (by a reader, the decoder or a plugin) and is identified by
  its message; \<open>joinError\<close> is the value \<^verbatim>\<open>errors.Join\<close> builds. The package-level
  variables are taken at the values their declarations give them.
\<close>

datatype error =
    ErrAppSettingsNil
  | ErrSettingsParamNil
  | ErrReaderNil
  | ErrOpeningFile
  | ErrClosingFile
  | ErrReadingFile
  | ErrUnmarshalingFile
  | ErrUpdateSettings
  | ErrValidateSettings
  | errorString string
  | joinError "error list"

definition DefaultAppSettingsFile :: string where
  "DefaultAppSettingsFile = ''appsettings.json''"

text \<open>The text of a joined error is the text of its members, one per line.\<close>

fun join_lines :: "string list \<Rightarrow> string" where
  "join_lines [] = []"
| "join_lines [x] = x"
| "join_lines (x # y # ys) = x @ [CHR 0x0A] @ join_lines (y # ys)"

fun Error :: "error \<Rightarrow> string" where
  "Error ErrAppSettingsNil = ''appsettings instance is nil''"
| "Error ErrSettingsParamNil = ''settings parameter is nil''"
| "Error ErrReaderNil = ''no settings reader provided''"
| "Error ErrOpeningFile = ''failed to open appsettings file''"
| "Error ErrClosingFile = ''failed to close appsettings file''"
| "Error ErrReadingFile = ''failed to read appsettings file''"
| "Error ErrUnmarshalingFile = ''failed to unmarshal appsettings file''"
| "Error ErrUpdateSettings = ''failed to update settings with env vars''"
| "Error ErrValidateSettings = ''failed to validate settings''"
| "Error (errorString s) = s"
| "Error (joinError es) = join_lines (map Error es)"

text \<open>
  \<^verbatim>\<open>errors.Join(errs...)\<close> drops the nil arguments, returns nil when nothing is left and
  otherwise an error holding the remaining ones in order. A possibly-nil \<^verbatim>\<open>error\<close> is
  an \<open>error option\<close>.
\<close>

definition errors_Join :: "error option list \<Rightarrow> error option" where
  "errors_Join errs =
     (let es = List.map_filter id errs
      in if es = [] then None else Some (joinError es))"

text \<open>
  \<^verbatim>\<open>errors.Is(err, target)\<close> for non-nil arguments: \<open>err\<close> is the target, or it is a
  joined error and one of its members matches.
\<close>

fun errors_Is :: "error \<Rightarrow> error \<Rightarrow> bool" where
  "errors_Is (joinError es) t = (if joinError es = t then True else list_ex (\<lambda>e. errors_Is e t) es)"
| "errors_Is e t = (e = t)"

text \<open>The underlying errors of a value, joins flattened, in order and with repetitions.\<close>

fun causes :: "error \<Rightarrow> error list" where
  "causes (joinError es) = concat (map causes es)"
| "causes e = [e]"

text \<open>\<^verbatim>\<open>strings.Contains\<close>, which the tests use on error texts.\<close>

definition Contains :: "string \<Rightarrow> string \<Rightarrow> bool" where
  "Contains s substr = sublist substr s"

section \<open>Collaborators\<close>

text \<open>
  An \<^verbatim>\<open>io.ReadCloser\<close> is described by what one pass over it yields: the bytes it
  delivers before it stops, how it stops (\<open>None\<close> for \<^verbatim>\<open>io.EOF\<close>, \<open>Some e\<close> for a
  failing \<^verbatim>\<open>Read\<close>), and what \<^verbatim>\<open>Close\<close> returns.
\<close>

record ReadCloser =
  rc_bytes :: string
  rc_read_err :: "error option"
  rc_close_err :: "error option"

text \<open>\<^verbatim>\<open>io.ReadAll\<close> returns the bytes read so far and the error, nil at end of stream.\<close>

definition io_ReadAll :: "ReadCloser \<Rightarrow> string \<times> error option" where
  "io_ReadAll r = (rc_bytes r, rc_read_err r)"

definition Close :: "ReadCloser \<Rightarrow> error option" where
  "Close r = rc_close_err r"

text \<open>
  The settings argument is a reference to a caller-defined value of type \<open>'s\<close>. A plugin
  receives the reference, may change the value behind it, and returns an error or nil.
  \<^verbatim>\<open>json.Unmarshal\<close> has the same shape with the bytes as a further argument; it is a
  parameter of the model. Collaborators are taken to return and to act on the settings
  only: a call that panics, or a plugin that reaches back into the Composer, is not
  described.
\<close>

type_synonym 's EnvUpdater = "'s \<Rightarrow> 's \<times> error option"
type_synonym 's Validator = "'s \<Rightarrow> 's \<times> error option"
type_synonym 's Unmarshal = "string \<Rightarrow> 's \<Rightarrow> 's \<times> error option"

section \<open>The Composer\<close>

record 's Composer =
  jsonReader :: "ReadCloser option"
  updater :: "'s EnvUpdater option"
  validator :: "'s Validator option"

text \<open>
  Composers live in a store and are handled through pointers: \<open>None\<close> is the nil
  pointer, \<open>Some a\<close> points to cell \<open>a\<close>. \<open>brk\<close> is the next free cell.
\<close>

record 's store =
  objs :: "nat \<Rightarrow> 's Composer"
  brk :: nat

text \<open>
  \<^verbatim>\<open>os.Open\<close> is a parameter: the file system maps a name to the opened file or to the
  error of the operating system.
\<close>

definition NewComposerWithReader ::
  "(string \<Rightarrow> error + ReadCloser) \<Rightarrow> 's store \<Rightarrow> ReadCloser option
     \<Rightarrow> 's store \<times> nat option \<times> error option" where
  "NewComposerWithReader os_Open st jsonReadCloser =
     (let opened =
        (case jsonReadCloser of
           None \<Rightarrow>
             (case os_Open DefaultAppSettingsFile of
                Inl err \<Rightarrow> Inl (errors_Join [Some ErrOpeningFile, Some err])
              | Inr f \<Rightarrow> Inr f)
         | Some r \<Rightarrow> Inr r)
      in case opened of
           Inl e \<Rightarrow> (st, None, e)
         | Inr r \<Rightarrow>
             (st\<lparr>objs := (objs st)(brk st := \<lparr>jsonReader = Some r, updater = None, validator = None\<rparr>),
                 brk := Suc (brk st)\<rparr>,
              Some (brk st), None))"

definition NewComposer ::
  "(string \<Rightarrow> error + ReadCloser) \<Rightarrow> 's store \<Rightarrow> 's store \<times> nat option \<times> error option" where
  "NewComposer os_Open st = NewComposerWithReader os_Open st None"

text \<open>
  The two setters assign through the receiver and return it. On a nil receiver the
  assignment is a nil-pointer dereference: the call panics, which is the value \<open>None\<close>.
\<close>

definition WithUpdater ::
  "'s store \<Rightarrow> nat option \<Rightarrow> 's EnvUpdater option \<Rightarrow> ('s store \<times> nat option) option" where
  "WithUpdater st as u =
     (case as of
        None \<Rightarrow> None
      | Some a \<Rightarrow> Some (st\<lparr>objs := (objs st)(a := (objs st a)\<lparr>updater := u\<rparr>)\<rparr>, Some a))"

definition WithValidator ::
  "'s store \<Rightarrow> nat option \<Rightarrow> 's Validator option \<Rightarrow> ('s store \<times> nat option) option" where
  "WithValidator st as v =
     (case as of
        None \<Rightarrow> None
      | Some a \<Rightarrow> Some (st\<lparr>objs := (objs st)(a := (objs st a)\<lparr>validator := v\<rparr>)\<rparr>, Some a))"

section \<open>Read\<close>

text \<open>
  A call of \<^verbatim>\<open>Read\<close> is observed through its returned error, the value behind the
  settings reference afterwards, and the calls it made on its collaborators, in order.

  The settings parameter has the interface type \<^verbatim>\<open>any\<close>, and the guard compares the
  interface with nil: \<open>None\<close> is the nil interface, \<open>Some x\<close> an interface that holds
  \<open>x\<close>. What it holds may itself be a pointer that is nil: with \<open>'s = T option\<close> the
  argument \<open>Some None\<close> is a nil \<^verbatim>\<open>*T\<close> passed as settings, which is not equal to
  nil as an interface. The same holds for the reader of a Composer.
\<close>

datatype event = Ev_ReadAll | Ev_Unmarshal | Ev_Update | Ev_Validate | Ev_Close

record 's result =
  ret :: "error option"
  settings_out :: "'s option"
  trace :: "event list"

text \<open>Step 3: the validator, when there is one.\<close>

definition Read_step3 :: "'s Composer \<Rightarrow> 's \<Rightarrow> event list \<Rightarrow> 's result" where
  "Read_step3 c s tr =
     (case validator c of
        None \<Rightarrow> \<lparr>ret = None, settings_out = Some s, trace = tr\<rparr>
      | Some v \<Rightarrow>
          (case v s of
             (s', Some errs) \<Rightarrow>
               \<lparr>ret = errors_Join [Some ErrValidateSettings, Some errs],
                settings_out = Some s', trace = tr @ [Ev_Validate]\<rparr>
           | (s', None) \<Rightarrow>
               \<lparr>ret = None, settings_out = Some s', trace = tr @ [Ev_Validate]\<rparr>))"

text \<open>Step 2: the updater, when there is one; its error ends the call.\<close>

definition Read_step2 :: "'s Composer \<Rightarrow> 's \<Rightarrow> event list \<Rightarrow> 's result" where
  "Read_step2 c s tr =
     (case updater c of
        None \<Rightarrow> Read_step3 c s tr
      | Some u \<Rightarrow>
          (case u s of
             (s', Some err) \<Rightarrow>
               \<lparr>ret = errors_Join [Some ErrUpdateSettings, Some err],
                settings_out = Some s', trace = tr @ [Ev_Update]\<rparr>
           | (s', None) \<Rightarrow> Read_step3 c s' (tr @ [Ev_Update])))"

text \<open>Step 1 after the close has been deferred: read everything, then decode.\<close>

definition Read_step1 :: "'s Unmarshal \<Rightarrow> 's Composer \<Rightarrow> ReadCloser \<Rightarrow> 's \<Rightarrow> 's result" where
  "Read_step1 unmarshal c r s =
     (case io_ReadAll r of
        (data, Some err) \<Rightarrow>
          \<lparr>ret = errors_Join [Some ErrReadingFile, Some err],
           settings_out = Some s, trace = [Ev_ReadAll]\<rparr>
      | (data, None) \<Rightarrow>
          (case unmarshal data s of
             (s', Some err) \<Rightarrow>
               \<lparr>ret = errors_Join [Some ErrUnmarshalingFile, Some err],
                settings_out = Some s', trace = [Ev_ReadAll, Ev_Unmarshal]\<rparr>
           | (s', None) \<Rightarrow> Read_step2 c s' [Ev_ReadAll, Ev_Unmarshal]))"

text \<open>
  The deferred function. A \<^verbatim>\<open>defer\<close> runs when the surrounding function returns, not
  when the block that contains it ends, and the \<open>err\<close> it assigns is the named result
  (the \<open>err\<close> declared later in the block is another variable). So it runs after the
  result has been set by whichever \<^verbatim>\<open>return\<close> was taken, and replaces that result
  when \<^verbatim>\<open>Close\<close> fails.
\<close>

definition Read_deferred :: "ReadCloser \<Rightarrow> 's result \<Rightarrow> 's result" where
  "Read_deferred r res =
     (case Close r of
        None \<Rightarrow> res\<lparr>trace := trace res @ [Ev_Close]\<rparr>
      | Some closeErr \<Rightarrow>
          res\<lparr>ret := errors_Join [Some ErrClosingFile, Some closeErr],
              trace := trace res @ [Ev_Close]\<rparr>)"

text \<open>
  \<^verbatim>\<open>Read\<close> itself: the three guards of step 0, none of which has the close deferred
  yet, then steps 1 to 3 followed by the deferred function.
\<close>

definition Read :: "'s Unmarshal \<Rightarrow> 's store \<Rightarrow> nat option \<Rightarrow> 's option \<Rightarrow> 's result" where
  "Read unmarshal st as settings =
     (case as of
        None \<Rightarrow> \<lparr>ret = Some ErrAppSettingsNil, settings_out = settings, trace = []\<rparr>
      | Some a \<Rightarrow>
          (case settings of
             None \<Rightarrow> \<lparr>ret = Some ErrSettingsParamNil, settings_out = settings, trace = []\<rparr>
           | Some s \<Rightarrow>
               (case jsonReader (objs st a) of
                  None \<Rightarrow> \<lparr>ret = Some ErrReaderNil, settings_out = settings, trace = []\<rparr>
                | Some r \<Rightarrow> Read_deferred r (Read_step1 unmarshal (objs st a) r s))))"

section \<open>Fixtures of the test suite\<close>

text \<open>
  The package's test drives \<^verbatim>\<open>Read\<close> with a settings struct that is its own
  validator, a reader that can be told to fail, and an updater that can be told to fail.
  They are the concrete inputs of the examples below. The validator reads the fields of its
  receiver, which in the test is the very struct passed as settings.
\<close>
record TestSettings =
  Global_Log_Level :: string
  Cors_Origins :: "string list"
  Custom_Service_Name :: string
  Custom_Enabled :: bool
  Google_App_Credentials :: string

definition TestSettings_zero :: TestSettings where
  "TestSettings_zero =
     \<lparr>Global_Log_Level = [], Cors_Origins = [], Custom_Service_Name = [],
      Custom_Enabled = False, Google_App_Credentials = []\<rparr>"

definition TestSettings_Validate :: "TestSettings Validator" where
  "TestSettings_Validate s =
     (let errs = None;
          errs = (if Global_Log_Level s = []
                  then errors_Join [errs, Some (errorString ''Global.Log.Level is required'')]
                  else errs);
          errs = (if Google_App_Credentials s = []
                  then errors_Join [errs, Some (errorString ''Google.App.Credentials is required'')]
                  else errs)
      in (s, errs))"

record TestReader =
  HasReadError :: bool
  HasCloseError :: bool

definition TestReader_ReadCloser :: "TestReader \<Rightarrow> ReadCloser" where
  "TestReader_ReadCloser r =
     \<lparr>rc_bytes = [],
      rc_read_err = (if HasReadError r then Some (errorString ''read error'') else None),
      rc_close_err = (if HasCloseError r then Some (errorString ''close error'') else None)\<rparr>"

record TestUpdater =
  LogLevel :: string
  GoogleCredentials :: string
  UpdateError :: "error option"

definition TestUpdater_Update :: "TestUpdater \<Rightarrow> TestSettings EnvUpdater" where
  "TestUpdater_Update u s =
     (let s = (if LogLevel u \<noteq> [] then s\<lparr>Global_Log_Level := LogLevel u\<rparr> else s);
          s = (if GoogleCredentials u \<noteq> [] then s\<lparr>Google_App_Credentials := GoogleCredentials u\<rparr> else s)
      in (s, UpdateError u))"

text \<open>
  The documents of the test, without their insignificant white space: one that decodes,
  and one in which a colon is missing.
\<close>

definition jsonContent :: string where
  \<open>jsonContent = ''{"global":{"log":{"msg-level":"Debug"}},"cors":{"origins":["*"]}}''\<close>

definition notJsonContent :: string where
  \<open>notJsonContent = ''{"global":{"log":{"msg-level" "Debug"}}}''\<close>

text \<open>
  A stand-in for \<^verbatim>\<open>json.Unmarshal\<close> into the test's struct, on the inputs the examples
  use: it decodes \<open>jsonContent\<close>, accepts the empty object without touching a field,
  reports the end of input on no bytes at all, and rejects the rest.
\<close>

definition test_Unmarshal :: "TestSettings Unmarshal" where
  "test_Unmarshal data s =
     (if data = jsonContent
      then (s\<lparr>Global_Log_Level := ''Debug'', Cors_Origins := [''*'']\<rparr>, None)
      else if data = ''{}'' then (s, None)
      else if data = [] then (s, Some (errorString ''unexpected end of JSON input''))
      else (s, Some (errorString ''invalid character'')))"

text \<open>
  The same stand-in when the settings argument is a \<^verbatim>\<open>*TestSettings\<close> that may be nil.
  \<^verbatim>\<open>json.Unmarshal\<close> checks the syntax of the bytes first and then refuses a nil
  pointer with an \<^verbatim>\<open>InvalidUnmarshalError\<close>.
\<close>

definition test_Unmarshal_ptr :: "TestSettings option Unmarshal" where
  "test_Unmarshal_ptr data p =
     (case p of
        Some s \<Rightarrow> (case test_Unmarshal data s of (s', err) \<Rightarrow> (Some s', err))
      | None \<Rightarrow>
          (case test_Unmarshal data TestSettings_zero of
             (_, Some err) \<Rightarrow> (None, Some err)
           | (_, None) \<Rightarrow>
               (None, Some (errorString ''json: Unmarshal(nil *appsettings_test.TestSettings)''))))"

text \<open>A source that delivers the given bytes, and whose \<^verbatim>\<open>Close\<close> returns the given result.\<close>

definition file_reader :: "string \<Rightarrow> error option \<Rightarrow> ReadCloser" where
  "file_reader content closeErr = \<lparr>rc_bytes = content, rc_read_err = None, rc_close_err = closeErr\<rparr>"

text \<open>A store in which one Composer has been allocated, at cell \<open>0\<close>.\<close>

definition store_with :: "'s Composer \<Rightarrow> 's store" where
  "store_with c =
     \<lparr>objs = (\<lambda>_. \<lparr>jsonReader = None, updater = None, validator = None\<rparr>)(0 := c), brk = Suc 0\<rparr>"

text \<open>Two file systems: one without the default file, one with it.\<close>

definition fs_without_default :: "string \<Rightarrow> error + ReadCloser" where
  "fs_without_default name = Inl (errorString (''open '' @ name @ '': no such file or directory''))"

definition fs_with_default :: "string \<Rightarrow> error + ReadCloser" where
  "fs_with_default name =
     (if name = ''appsettings.json'' then Inr (file_reader jsonContent None)
      else fs_without_default name)"

section \<open>Basic facts\<close>

lemmas fixture_defs =
  store_with_def file_reader_def TestReader_ReadCloser_def test_Unmarshal_def
  TestSettings_zero_def io_ReadAll_def Close_def jsonContent_def notJsonContent_def

lemma errors_Join_pair: "errors_Join [Some x, Some y] = Some (joinError [x, y])"
  by (simp add: errors_Join_def List.map_filter_simps)

lemma errors_Is_refl: "errors_Is e e"
  by (cases e) simp_all

lemma errors_Is_pair:
  "errors_Is (joinError [x, y]) t = (t = joinError [x, y] \<or> errors_Is x t \<or> errors_Is y t)"
  by auto

lemma Read_deferred_trace: "trace (Read_deferred r res) = trace res @ [Ev_Close]"
  by (simp add: Read_deferred_def split: option.splits)

lemma Read_deferred_settings: "settings_out (Read_deferred r res) = settings_out res"
  by (simp add: Read_deferred_def split: option.splits)

lemma Read_deferred_ret:
  "ret (Read_deferred r res) =
     (case Close r of None \<Rightarrow> ret res | Some closeErr \<Rightarrow> Some (joinError [ErrClosingFile, closeErr]))"
  by (simp add: Read_deferred_def errors_Join_pair split: option.splits)

lemma Read_past_guards:
  "jsonReader (objs st a) = Some r \<Longrightarrow>
   Read unm st (Some a) (Some s) = Read_deferred r (Read_step1 unm (objs st a) r s)"
  by (simp add: Read_def)

lemma Read_step1_read_error:
  "io_ReadAll r = (data, Some e) \<Longrightarrow>
   Read_step1 unm c r s =
     \<lparr>ret = Some (joinError [ErrReadingFile, e]), settings_out = Some s, trace = [Ev_ReadAll]\<rparr>"
  by (simp add: Read_step1_def errors_Join_pair)

lemma Read_step1_unmarshal_error:
  "io_ReadAll r = (data, None) \<Longrightarrow> unm data s = (s1, Some e) \<Longrightarrow>
   Read_step1 unm c r s =
     \<lparr>ret = Some (joinError [ErrUnmarshalingFile, e]), settings_out = Some s1,
      trace = [Ev_ReadAll, Ev_Unmarshal]\<rparr>"
  by (simp add: Read_step1_def errors_Join_pair)

lemma Read_step1_decoded:
  "io_ReadAll r = (data, None) \<Longrightarrow> unm data s = (s1, None) \<Longrightarrow>
   Read_step1 unm c r s = Read_step2 c s1 [Ev_ReadAll, Ev_Unmarshal]"
  by (simp add: Read_step1_def)

lemma Read_step2_update_error:
  "updater c = Some u \<Longrightarrow> u s = (s2, Some e) \<Longrightarrow>
   Read_step2 c s tr =
     \<lparr>ret = Some (joinError [ErrUpdateSettings, e]), settings_out = Some s2, trace = tr @ [Ev_Update]\<rparr>"
  by (simp add: Read_step2_def errors_Join_pair)

lemma Read_step2_updated:
  "updater c = Some u \<Longrightarrow> u s = (s2, None) \<Longrightarrow>
   Read_step2 c s tr = Read_step3 c s2 (tr @ [Ev_Update])"
  by (simp add: Read_step2_def)

lemma Read_step2_skipped:
  "updater c = None \<Longrightarrow> Read_step2 c s tr = Read_step3 c s tr"
  by (simp add: Read_step2_def)

lemma Read_step3_validate_error:
  "validator c = Some v \<Longrightarrow> v s = (s3, Some errs) \<Longrightarrow>
   Read_step3 c s tr =
     \<lparr>ret = Some (joinError [ErrValidateSettings, errs]), settings_out = Some s3,
      trace = tr @ [Ev_Validate]\<rparr>"
  by (simp add: Read_step3_def errors_Join_pair)

lemma Read_step3_skipped:
  "validator c = None \<Longrightarrow> Read_step3 c s tr = \<lparr>ret = None, settings_out = Some s, trace = tr\<rparr>"
  by (simp add: Read_step3_def)

lemma TestSettings_Validate_credentials_only:
  "Global_Log_Level t \<noteq> [] \<Longrightarrow> Google_App_Credentials t = [] \<Longrightarrow>
   TestSettings_Validate t = (t, Some (joinError [errorString ''Google.App.Credentials is required'']))"
  by (simp add: TestSettings_Validate_def errors_Join_def)

lemma TestSettings_Validate_zero:
  "TestSettings_Validate TestSettings_zero =
     (TestSettings_zero,
      Some (joinError [joinError [errorString ''Global.Log.Level is required''],
                       errorString ''Google.App.Credentials is required'']))"
  by (simp add: TestSettings_Validate_def TestSettings_zero_def errors_Join_def)

lemma validate_text_has_credentials:
  "Contains (Error (joinError [ErrValidateSettings,
      joinError [errorString ''Google.App.Credentials is required'']]))
    ''Google.App.Credentials is required''"
  unfolding Contains_def by code_simp

lemma validate_text_lacks_level:
  "\<not> Contains (Error (joinError [ErrValidateSettings,
      joinError [errorString ''Google.App.Credentials is required'']]))
    ''Global.Log.Level is required''"
  unfolding Contains_def by code_simp

lemma Read_reaches_validator:
  assumes "jsonReader (objs st a) = Some r"
    and "io_ReadAll r = (data, None)"
    and "unm data s = (s1, None)"
    and "updater (objs st a) = None \<and> s2 = s1 \<or> (\<exists>u. updater (objs st a) = Some u \<and> u s1 = (s2, None))"
    and "validator (objs st a) = Some v"
    and "v s2 = (s3, Some errs)"
    and "Close r = None"
  shows "ret (Read unm st (Some a) (Some s)) = Some (joinError [ErrValidateSettings, errs])"
  using assms
  by (auto simp add: Read_past_guards Read_deferred_ret Read_step1_decoded Read_step2_skipped
      Read_step2_updated Read_step3_validate_error)

section \<open>The guards of step 0\<close>

lemma Read_step3_trace: "\<exists>evs. trace (Read_step3 c s tr) = tr @ evs"
  by (simp add: Read_step3_def split: option.splits prod.splits)

lemma Read_step2_trace: "\<exists>evs. trace (Read_step2 c s tr) = tr @ evs"
proof (cases "updater c")
  case None
  then show ?thesis by (simp add: Read_step2_def Read_step3_trace)
next
  case (Some u)
  obtain s' e where us: "u s = (s', e)" by (cases "u s")
  show ?thesis
  proof (cases e)
    case None
    obtain evs where "trace (Read_step3 c s' (tr @ [Ev_Update])) = (tr @ [Ev_Update]) @ evs"
      using Read_step3_trace [of c s' "tr @ [Ev_Update]"] by auto
    with Some us None show ?thesis by (simp add: Read_step2_def)
  next
    case (Some err)
    with \<open>updater c = Some u\<close> us show ?thesis by (simp add: Read_step2_def)
  qed
qed

lemma Read_step1_trace: "\<exists>evs. trace (Read_step1 unm c r s) = Ev_ReadAll # evs"
proof (cases "rc_read_err r")
  case (Some e)
  then show ?thesis by (simp add: Read_step1_def io_ReadAll_def)
next
  case None
  obtain s' e where d: "unm (rc_bytes r) s = (s', e)" by (cases "unm (rc_bytes r) s")
  show ?thesis
  proof (cases e)
    case None
    obtain evs where "trace (Read_step2 c s' [Ev_ReadAll, Ev_Unmarshal]) = [Ev_ReadAll, Ev_Unmarshal] @ evs"
      using Read_step2_trace [of c s' "[Ev_ReadAll, Ev_Unmarshal]"] by auto
    with \<open>rc_read_err r = None\<close> d None show ?thesis by (simp add: Read_step1_def io_ReadAll_def)
  next
    case (Some err)
    with \<open>rc_read_err r = None\<close> d show ?thesis by (simp add: Read_step1_def io_ReadAll_def)
  qed
qed

lemma Read_steps_ret:
  "ret (Read_deferred r (Read_step1 unm c r s)) = None
   \<or> (\<exists>k e. ret (Read_deferred r (Read_step1 unm c r s)) = Some (joinError [k, e]))"
  by (simp add: Read_deferred_def Read_step1_def Read_step2_def Read_step3_def errors_Join_pair
      split: option.splits prod.splits)

text \<open>
  C1, as amended. A nil Composer pointer gives \<open>ErrAppSettingsNil\<close> whatever the other
  arguments are; with a Composer, a settings argument that is the nil interface gives
  \<open>ErrSettingsParamNil\<close> whatever the Composer holds; with both present, a Composer whose
  reader is the nil interface gives \<open>ErrReaderNil\<close>. The three errors are pairwise
  different, and in each case nothing was called: the source was neither read nor closed,
  no plugin ran, and the settings are as they were. No other argument is stopped by a
  guard: with a Composer, a settings argument and a reader that are not the nil interface,
  whatever they hold, the source is read first and closed last, and the result is none of
  the three errors.
\<close>

theorem Read_guards:
  "Read unm st None settings = \<lparr>ret = Some ErrAppSettingsNil, settings_out = settings, trace = []\<rparr>
   \<and> Read unm st (Some a) None = \<lparr>ret = Some ErrSettingsParamNil, settings_out = None, trace = []\<rparr>
   \<and> (jsonReader (objs st a) = None \<longrightarrow>
        Read unm st (Some a) (Some s) = \<lparr>ret = Some ErrReaderNil, settings_out = Some s, trace = []\<rparr>)
   \<and> distinct [ErrAppSettingsNil, ErrSettingsParamNil, ErrReaderNil]
   \<and> (jsonReader (objs st a) = Some r \<longrightarrow>
        hd (trace (Read unm st (Some a) (Some s))) = Ev_ReadAll
        \<and> last (trace (Read unm st (Some a) (Some s))) = Ev_Close
        \<and> ret (Read unm st (Some a) (Some s)) \<noteq> Some ErrAppSettingsNil
        \<and> ret (Read unm st (Some a) (Some s)) \<noteq> Some ErrSettingsParamNil
        \<and> ret (Read unm st (Some a) (Some s)) \<noteq> Some ErrReaderNil)"
proof -
  have guards: "Read unm st None settings =
        \<lparr>ret = Some ErrAppSettingsNil, settings_out = settings, trace = []\<rparr>
      \<and> Read unm st (Some a) None =
        \<lparr>ret = Some ErrSettingsParamNil, settings_out = None, trace = []\<rparr>
      \<and> (jsonReader (objs st a) = None \<longrightarrow>
        Read unm st (Some a) (Some s) =
          \<lparr>ret = Some ErrReaderNil, settings_out = Some s, trace = []\<rparr>)"
    by (simp add: Read_def)
  have past: "hd (trace (Read unm st (Some a) (Some s))) = Ev_ReadAll
        \<and> last (trace (Read unm st (Some a) (Some s))) = Ev_Close
        \<and> ret (Read unm st (Some a) (Some s)) \<noteq> Some ErrAppSettingsNil
        \<and> ret (Read unm st (Some a) (Some s)) \<noteq> Some ErrSettingsParamNil
        \<and> ret (Read unm st (Some a) (Some s)) \<noteq> Some ErrReaderNil"
    if h: "jsonReader (objs st a) = Some r"
  proof -
    obtain evs where evs: "trace (Read_step1 unm (objs st a) r s) = Ev_ReadAll # evs"
      using Read_step1_trace [of unm "objs st a" r s] by auto
    have "trace (Read unm st (Some a) (Some s)) = Ev_ReadAll # evs @ [Ev_Close]"
      using h evs by (simp add: Read_past_guards Read_deferred_trace)
    moreover have "ret (Read unm st (Some a) (Some s)) = None
        \<or> (\<exists>k e. ret (Read unm st (Some a) (Some s)) = Some (joinError [k, e]))"
      using h Read_steps_ret [of r unm "objs st a" s] by (simp add: Read_past_guards)
    ultimately show ?thesis by auto
  qed
  show ?thesis using guards past by simp
qed

text \<open>
  The three guards at the test's inputs: a nil Composer, a nil settings argument, and the
  zero Composer \<^verbatim>\<open>&Composer{}\<close>; and a Composer with a reader, on which the source is
  read and closed.
\<close>

theorem Read_guards_witness:
  "Read test_Unmarshal (store_with \<lparr>jsonReader = None, updater = None, validator = None\<rparr>)
      None (Some TestSettings_zero) =
     \<lparr>ret = Some ErrAppSettingsNil, settings_out = Some TestSettings_zero, trace = []\<rparr>
   \<and> Read test_Unmarshal (store_with \<lparr>jsonReader = None, updater = None, validator = None\<rparr>)
      (Some 0) None =
     \<lparr>ret = Some ErrSettingsParamNil, settings_out = None, trace = []\<rparr>
   \<and> Read test_Unmarshal (store_with \<lparr>jsonReader = None, updater = None, validator = None\<rparr>)
      (Some 0) (Some TestSettings_zero) =
     \<lparr>ret = Some ErrReaderNil, settings_out = Some TestSettings_zero, trace = []\<rparr>
   \<and> hd (trace (Read test_Unmarshal
        (store_with \<lparr>jsonReader = Some (file_reader jsonContent None), updater = None,
                     validator = None\<rparr>)
        (Some 0) (Some TestSettings_zero))) = Ev_ReadAll
   \<and> last (trace (Read test_Unmarshal
        (store_with \<lparr>jsonReader = Some (file_reader jsonContent None), updater = None,
                     validator = None\<rparr>)
        (Some 0) (Some TestSettings_zero))) = Ev_Close"
proof -
  let ?st0 = "store_with \<lparr>jsonReader = None, updater = None,
      validator = (None :: TestSettings Validator option)\<rparr>"
  let ?r = "file_reader jsonContent None"
  let ?st1 = "store_with \<lparr>jsonReader = Some ?r, updater = None,
      validator = (None :: TestSettings Validator option)\<rparr>"
  have 0: "jsonReader (objs ?st0 0) = None" by (simp add: store_with_def)
  have 1: "jsonReader (objs ?st1 0) = Some ?r" by (simp add: store_with_def)
  show ?thesis
    using Read_guards [where unm = test_Unmarshal and st = ?st0
          and settings = "Some TestSettings_zero" and a = 0 and s = TestSettings_zero and r = ?r]
      Read_guards [where unm = test_Unmarshal and st = ?st1
          and settings = "Some TestSettings_zero" and a = 0 and s = TestSettings_zero and r = ?r]
      0 1
    by simp
qed

text \<open>
  C1 as first stated does not hold for every absent settings reference: a nil
  \<^verbatim>\<open>*TestSettings\<close> passed as settings is not the nil interface, so no guard stops it.
  The source is read, the decoder refuses the nil pointer, the source is closed, and the
  result is an unmarshal error, not \<open>ErrSettingsParamNil\<close>.
\<close>

theorem Read_guards_counterexample:
  "Read test_Unmarshal_ptr
      (store_with \<lparr>jsonReader = Some (file_reader jsonContent None), updater = None,
                   validator = None\<rparr>)
      (Some 0) (Some None) =
     \<lparr>ret = Some (joinError [ErrUnmarshalingFile,
               errorString ''json: Unmarshal(nil *appsettings_test.TestSettings)'']),
      settings_out = Some None,
      trace = [Ev_ReadAll, Ev_Unmarshal, Ev_Close]\<rparr>
   \<and> \<not> errors_Is (joinError [ErrUnmarshalingFile,
               errorString ''json: Unmarshal(nil *appsettings_test.TestSettings)''])
          ErrSettingsParamNil"
  by (simp add: store_with_def file_reader_def test_Unmarshal_ptr_def test_Unmarshal_def
      Read_def Read_deferred_def Read_step1_def io_ReadAll_def Close_def errors_Join_pair)

section \<open>A failing close\<close>

text \<open>
  C3. When the source is read and decoded without error and its \<^verbatim>\<open>Close\<close> fails with
  \<open>closeErr\<close>, \<^verbatim>\<open>Read\<close> returns the join of \<open>ErrClosingFile\<close> and \<open>closeErr\<close>,
  whatever plugins are attached and whatever they returned: the result is never nil, it
  matches \<open>ErrClosingFile\<close>, and the close failure itself can be found in it.
\<close>

theorem Read_close_failure_surfaces:
  assumes "jsonReader (objs st a) = Some r"
    and "io_ReadAll r = (data, None)"
    and "unm data s = (s1, None)"
    and "Close r = Some closeErr"
  shows "ret (Read unm st (Some a) (Some s)) = Some (joinError [ErrClosingFile, closeErr])
       \<and> errors_Is (joinError [ErrClosingFile, closeErr]) ErrClosingFile
       \<and> errors_Is (joinError [ErrClosingFile, closeErr]) closeErr
       \<and> last (trace (Read unm st (Some a) (Some s))) = Ev_Close"
  using assms
  by (simp add: Read_past_guards Read_deferred_ret Read_deferred_trace errors_Is_pair errors_Is_refl)

text \<open>
  A source that delivers the empty object and then fails to close.
\<close>

theorem Read_close_failure_surfaces_witness:
  "ret (Read test_Unmarshal
      (store_with \<lparr>jsonReader = Some (file_reader ''{}'' (Some (errorString ''close error''))),
                   updater = None, validator = None\<rparr>)
      (Some 0) (Some TestSettings_zero)) =
     Some (joinError [ErrClosingFile, errorString ''close error''])"
proof -
  let ?r = "file_reader ''{}'' (Some (errorString ''close error''))"
  let ?st = "store_with \<lparr>jsonReader = Some ?r, updater = None,
      validator = (None :: TestSettings Validator option)\<rparr>"
  have 1: "jsonReader (objs ?st 0) = Some ?r" by (simp add: store_with_def)
  have 2: "io_ReadAll ?r = (''{}'', None)" by (simp add: fixture_defs)
  have 3: "test_Unmarshal ''{}'' TestSettings_zero = (TestSettings_zero, None)"
    by (simp add: fixture_defs)
  have 4: "Close ?r = Some (errorString ''close error'')" by (simp add: fixture_defs)
  show ?thesis using Read_close_failure_surfaces [where unm = test_Unmarshal, OF 1 2 3 4] by simp
qed

text \<open>
  C10. When the read or the decoding fails with \<open>e\<close> and the \<^verbatim>\<open>Close\<close> of the source
  fails as well, the result is the join of \<open>ErrClosingFile\<close> and the close failure, and
  nothing else: its underlying errors are \<open>ErrClosingFile\<close> and those of the close failure,
  and a target matches it only if it is the result itself, \<open>ErrClosingFile\<close>, or matched
  by the close failure. The earlier cause \<open>e\<close> does not occur in it.
\<close>

theorem Read_close_overrides_earlier_failure:
  assumes "jsonReader (objs st a) = Some r"
    and "Close r = Some closeErr"
    and "io_ReadAll r = (data, Some e)
         \<or> io_ReadAll r = (data, None) \<and> unm data s = (sd, Some e)"
  shows "ret (Read unm st (Some a) (Some s)) = Some (joinError [ErrClosingFile, closeErr])
       \<and> ret (Read unm st (Some a) (Some s)) \<noteq> Some (joinError [ErrReadingFile, e])
       \<and> ret (Read unm st (Some a) (Some s)) \<noteq> Some (joinError [ErrUnmarshalingFile, e])
       \<and> causes (joinError [ErrClosingFile, closeErr]) = ErrClosingFile # causes closeErr
       \<and> (\<forall>t. errors_Is (joinError [ErrClosingFile, closeErr]) t =
             (t = joinError [ErrClosingFile, closeErr] \<or> t = ErrClosingFile \<or> errors_Is closeErr t))"
  using assms(1,2)
  by (auto simp add: Read_past_guards Read_deferred_ret)

text \<open>
  The test's reader with both faults switched on (the read fails), and with only the
  close fault (no bytes are read, so the decoding fails): the result is the close error,
  which matches neither \<open>ErrReadingFile\<close> nor \<open>ErrUnmarshalingFile\<close>.
\<close>

theorem Read_close_overrides_earlier_failure_witness:
  "ret (Read test_Unmarshal
      (store_with \<lparr>jsonReader = Some (TestReader_ReadCloser \<lparr>HasReadError = True, HasCloseError = True\<rparr>),
                   updater = None, validator = None\<rparr>)
      (Some 0) (Some TestSettings_zero)) =
     Some (joinError [ErrClosingFile, errorString ''close error''])
   \<and> ret (Read test_Unmarshal
      (store_with \<lparr>jsonReader = Some (TestReader_ReadCloser \<lparr>HasReadError = False, HasCloseError = True\<rparr>),
                   updater = None, validator = None\<rparr>)
      (Some 0) (Some TestSettings_zero)) =
     Some (joinError [ErrClosingFile, errorString ''close error''])
   \<and> errors_Is (joinError [ErrClosingFile, errorString ''close error'']) ErrReadingFile = False
   \<and> errors_Is (joinError [ErrClosingFile, errorString ''close error'']) ErrUnmarshalingFile = False"
proof -
  let ?r1 = "TestReader_ReadCloser \<lparr>HasReadError = True, HasCloseError = True\<rparr>"
  let ?r2 = "TestReader_ReadCloser \<lparr>HasReadError = False, HasCloseError = True\<rparr>"
  let ?st1 = "store_with \<lparr>jsonReader = Some ?r1, updater = None,
      validator = (None :: TestSettings Validator option)\<rparr>"
  let ?st2 = "store_with \<lparr>jsonReader = Some ?r2, updater = None,
      validator = (None :: TestSettings Validator option)\<rparr>"
  have a1: "jsonReader (objs ?st1 0) = Some ?r1" by (simp add: store_with_def)
  have a2: "Close ?r1 = Some (errorString ''close error'')" by (simp add: fixture_defs)
  have a3: "io_ReadAll ?r1 = ([], Some (errorString ''read error''))" by (simp add: fixture_defs)
  have b1: "jsonReader (objs ?st2 0) = Some ?r2" by (simp add: store_with_def)
  have b2: "Close ?r2 = Some (errorString ''close error'')" by (simp add: fixture_defs)
  have b3: "io_ReadAll ?r2 = ([], None)
      \<and> test_Unmarshal [] TestSettings_zero =
          (TestSettings_zero, Some (errorString ''unexpected end of JSON input''))"
    by (simp add: fixture_defs)
  show ?thesis
    using Read_close_overrides_earlier_failure [where unm = test_Unmarshal
          and s = TestSettings_zero and sd = TestSettings_zero, OF a1 a2 disjI1 [OF a3]]
      Read_close_overrides_earlier_failure [where unm = test_Unmarshal
          and s = TestSettings_zero and sd = TestSettings_zero, OF b1 b2 disjI2 [OF b3]]
    by simp
qed

section \<open>A failing read\<close>

text \<open>
  C7, as amended. When reading the source fails with \<open>e\<close>, the decoder and the plugins
  are not called, the source is still closed, and the settings are untouched. If that
  \<^verbatim>\<open>Close\<close> succeeds, \<^verbatim>\<open>Read\<close> returns the join of \<open>ErrReadingFile\<close> and \<open>e\<close>.
\<close>

theorem Read_read_failure:
  assumes "jsonReader (objs st a) = Some r"
    and "io_ReadAll r = (data, Some e)"
  shows "trace (Read unm st (Some a) (Some s)) = [Ev_ReadAll, Ev_Close]
       \<and> settings_out (Read unm st (Some a) (Some s)) = Some s
       \<and> (Close r = None \<longrightarrow>
            ret (Read unm st (Some a) (Some s)) = Some (joinError [ErrReadingFile, e])
            \<and> errors_Is (joinError [ErrReadingFile, e]) ErrReadingFile
            \<and> errors_Is (joinError [ErrReadingFile, e]) e)"
  using assms
  by (simp add: Read_past_guards Read_deferred_ret Read_deferred_trace Read_deferred_settings
      Read_step1_read_error errors_Is_pair errors_Is_refl)

text \<open>
  The test's reader with the read fault switched on.
\<close>

theorem Read_read_failure_witness:
  "Read test_Unmarshal
      (store_with \<lparr>jsonReader = Some (TestReader_ReadCloser \<lparr>HasReadError = True, HasCloseError = False\<rparr>),
                   updater = None, validator = None\<rparr>)
      (Some 0) (Some TestSettings_zero) =
     \<lparr>ret = Some (joinError [ErrReadingFile, errorString ''read error'']),
      settings_out = Some TestSettings_zero,
      trace = [Ev_ReadAll, Ev_Close]\<rparr>"
proof -
  let ?r = "TestReader_ReadCloser \<lparr>HasReadError = True, HasCloseError = False\<rparr>"
  let ?st = "store_with \<lparr>jsonReader = Some ?r, updater = None,
      validator = (None :: TestSettings Validator option)\<rparr>"
  have 1: "jsonReader (objs ?st 0) = Some ?r" by (simp add: store_with_def)
  have 2: "io_ReadAll ?r = ([], Some (errorString ''read error''))" by (simp add: fixture_defs)
  have 3: "Close ?r = None" by (simp add: fixture_defs)
  show ?thesis
    using Read_read_failure [OF 1 2, of test_Unmarshal TestSettings_zero] 3
    by (cases "Read test_Unmarshal ?st (Some 0) (Some TestSettings_zero)") simp
qed

text \<open>
  C7 as first stated does not hold: with both faults of the test's reader switched on,
  the read fails and yet the result is the close error, which does not match
  \<open>ErrReadingFile\<close>.
\<close>

theorem Read_read_failure_counterexample:
  "io_ReadAll (TestReader_ReadCloser \<lparr>HasReadError = True, HasCloseError = True\<rparr>) =
     ([], Some (errorString ''read error''))
   \<and> ret (Read test_Unmarshal
      (store_with \<lparr>jsonReader = Some (TestReader_ReadCloser \<lparr>HasReadError = True, HasCloseError = True\<rparr>),
                   updater = None, validator = None\<rparr>)
      (Some 0) (Some TestSettings_zero)) =
     Some (joinError [ErrClosingFile, errorString ''close error''])
   \<and> \<not> errors_Is (joinError [ErrClosingFile, errorString ''close error'']) ErrReadingFile"
  by (simp add: fixture_defs Read_past_guards Read_deferred_ret)

section \<open>A malformed document\<close>

text \<open>
  C2, as amended. When the bytes of the source do not decode, failing with \<open>e\<close>, neither
  the updater nor the validator is called, the source is closed, and the settings are
  whatever the decoder left behind. If that \<^verbatim>\<open>Close\<close> succeeds, \<^verbatim>\<open>Read\<close> returns
  the join of \<open>ErrUnmarshalingFile\<close> and \<open>e\<close>.
\<close>

theorem Read_unmarshal_failure:
  assumes "jsonReader (objs st a) = Some r"
    and "io_ReadAll r = (data, None)"
    and "unm data s = (s1, Some e)"
  shows "trace (Read unm st (Some a) (Some s)) = [Ev_ReadAll, Ev_Unmarshal, Ev_Close]
       \<and> settings_out (Read unm st (Some a) (Some s)) = Some s1
       \<and> (Close r = None \<longrightarrow>
            ret (Read unm st (Some a) (Some s)) = Some (joinError [ErrUnmarshalingFile, e])
            \<and> errors_Is (joinError [ErrUnmarshalingFile, e]) ErrUnmarshalingFile
            \<and> errors_Is (joinError [ErrUnmarshalingFile, e]) e)"
  using assms
  by (simp add: Read_past_guards Read_deferred_ret Read_deferred_trace Read_deferred_settings
      Read_step1_unmarshal_error errors_Is_pair errors_Is_refl)

text \<open>
  The malformed document of the test, with both plugins attached: neither runs.
\<close>

theorem Read_unmarshal_failure_witness:
  "Read test_Unmarshal
      (store_with \<lparr>jsonReader = Some (file_reader notJsonContent None),
                   updater = Some (TestUpdater_Update \<lparr>LogLevel = [], GoogleCredentials = [], UpdateError = None\<rparr>),
                   validator = Some TestSettings_Validate\<rparr>)
      (Some 0) (Some TestSettings_zero) =
     \<lparr>ret = Some (joinError [ErrUnmarshalingFile, errorString ''invalid character'']),
      settings_out = Some TestSettings_zero,
      trace = [Ev_ReadAll, Ev_Unmarshal, Ev_Close]\<rparr>"
proof -
  let ?r = "file_reader notJsonContent None"
  let ?st = "store_with \<lparr>jsonReader = Some ?r,
      updater = Some (TestUpdater_Update \<lparr>LogLevel = [], GoogleCredentials = [], UpdateError = None\<rparr>),
      validator = Some TestSettings_Validate\<rparr>"
  have 1: "jsonReader (objs ?st 0) = Some ?r" by (simp add: store_with_def)
  have 2: "io_ReadAll ?r = (notJsonContent, None)" by (simp add: file_reader_def io_ReadAll_def)
  have 3: "test_Unmarshal notJsonContent TestSettings_zero =
      (TestSettings_zero, Some (errorString ''invalid character''))"
    by (simp add: fixture_defs)
  have 4: "Close ?r = None" by (simp add: file_reader_def Close_def)
  show ?thesis
    using Read_unmarshal_failure [where unm = test_Unmarshal, OF 1 2 3] 4
    by (cases "Read test_Unmarshal ?st (Some 0) (Some TestSettings_zero)") simp
qed

text \<open>
  C2 as first stated does not hold: the test's reader with the close fault delivers no
  bytes, which is not a document, and the result is the close error, which does not
  match \<open>ErrUnmarshalingFile\<close>.
\<close>

theorem Read_unmarshal_failure_counterexample:
  "io_ReadAll (TestReader_ReadCloser \<lparr>HasReadError = False, HasCloseError = True\<rparr>) = ([], None)
   \<and> test_Unmarshal [] TestSettings_zero =
       (TestSettings_zero, Some (errorString ''unexpected end of JSON input''))
   \<and> ret (Read test_Unmarshal
      (store_with \<lparr>jsonReader = Some (TestReader_ReadCloser \<lparr>HasReadError = False, HasCloseError = True\<rparr>),
                   updater = None, validator = None\<rparr>)
      (Some 0) (Some TestSettings_zero)) =
     Some (joinError [ErrClosingFile, errorString ''close error''])
   \<and> \<not> errors_Is (joinError [ErrClosingFile, errorString ''close error'']) ErrUnmarshalingFile"
  by (simp add: fixture_defs Read_past_guards Read_deferred_ret)

section \<open>No plugins attached\<close>

text \<open>
  C5, as amended. With no updater and no validator attached, a source that is read,
  decoded and closed without error makes \<^verbatim>\<open>Read\<close> succeed: it returns nil, the settings
  are the decoded ones whatever their fields hold, and only the source and the decoder
  were called.
\<close>

theorem Read_without_plugins:
  assumes "jsonReader (objs st a) = Some r"
    and "io_ReadAll r = (data, None)"
    and "unm data s = (s1, None)"
    and "updater (objs st a) = None"
    and "validator (objs st a) = None"
    and "Close r = None"
  shows "Read unm st (Some a) (Some s) =
           \<lparr>ret = None, settings_out = Some s1, trace = [Ev_ReadAll, Ev_Unmarshal, Ev_Close]\<rparr>"
  using assms
  by (simp add: Read_past_guards Read_deferred_def
      Read_step1_decoded Read_step2_skipped Read_step3_skipped)

text \<open>
  The well-formed document of the test: the credentials stay empty and \<^verbatim>\<open>Read\<close>
  succeeds.
\<close>

theorem Read_without_plugins_witness:
  "Read test_Unmarshal
      (store_with \<lparr>jsonReader = Some (file_reader jsonContent None), updater = None, validator = None\<rparr>)
      (Some 0) (Some TestSettings_zero) =
     \<lparr>ret = None,
      settings_out = Some (TestSettings_zero\<lparr>Global_Log_Level := ''Debug'', Cors_Origins := [''*'']\<rparr>),
      trace = [Ev_ReadAll, Ev_Unmarshal, Ev_Close]\<rparr>"
proof -
  let ?r = "file_reader jsonContent None"
  let ?st = "store_with \<lparr>jsonReader = Some ?r, updater = None,
      validator = (None :: TestSettings Validator option)\<rparr>"
  have 1: "jsonReader (objs ?st 0) = Some ?r" by (simp add: store_with_def)
  have 2: "io_ReadAll ?r = (jsonContent, None)" by (simp add: file_reader_def io_ReadAll_def)
  have 3: "test_Unmarshal jsonContent TestSettings_zero =
      (TestSettings_zero\<lparr>Global_Log_Level := ''Debug'', Cors_Origins := [''*'']\<rparr>, None)"
    by (simp add: test_Unmarshal_def)
  have 4: "updater (objs ?st 0) = None" by (simp add: store_with_def)
  have 5: "validator (objs ?st 0) = None" by (simp add: store_with_def)
  have 6: "Close ?r = None" by (simp add: file_reader_def Close_def)
  show ?thesis
    using Read_without_plugins [where unm = test_Unmarshal, OF 1 2 3 4 5 6] by simp
qed

text \<open>
  C5 as first stated does not hold: the same well-formed document from a source whose
  \<^verbatim>\<open>Close\<close> fails, no plugin attached, and \<^verbatim>\<open>Read\<close> returns the close error.
\<close>

theorem Read_without_plugins_counterexample:
  "updater (objs (store_with \<lparr>jsonReader = Some (file_reader jsonContent (Some (errorString ''close error''))),
                   updater = None, validator = (None :: TestSettings Validator option)\<rparr>) 0) = None
   \<and> validator (objs (store_with \<lparr>jsonReader = Some (file_reader jsonContent (Some (errorString ''close error''))),
                   updater = (None :: TestSettings EnvUpdater option), validator = None\<rparr>) 0) = None
   \<and> test_Unmarshal jsonContent TestSettings_zero =
      (TestSettings_zero\<lparr>Global_Log_Level := ''Debug'', Cors_Origins := [''*'']\<rparr>, None)
   \<and> ret (Read test_Unmarshal
      (store_with \<lparr>jsonReader = Some (file_reader jsonContent (Some (errorString ''close error''))),
                   updater = None, validator = None\<rparr>)
      (Some 0) (Some TestSettings_zero)) =
     Some (joinError [ErrClosingFile, errorString ''close error''])"
  by (simp add: store_with_def file_reader_def test_Unmarshal_def Close_def
      Read_past_guards Read_deferred_ret)

section \<open>A failing updater\<close>

text \<open>
  C6, as amended. When the attached updater is reached and returns the error \<open>e\<close>, the
  validator is not called, attached or not, and the settings are as the updater left
  them. If the \<^verbatim>\<open>Close\<close> of the source succeeds, \<^verbatim>\<open>Read\<close> returns the join of
  \<open>ErrUpdateSettings\<close> and \<open>e\<close>.
\<close>

theorem Read_update_failure:
  assumes "jsonReader (objs st a) = Some r"
    and "io_ReadAll r = (data, None)"
    and "unm data s = (s1, None)"
    and "updater (objs st a) = Some u"
    and "u s1 = (s2, Some e)"
  shows "Ev_Validate \<notin> set (trace (Read unm st (Some a) (Some s)))
       \<and> settings_out (Read unm st (Some a) (Some s)) = Some s2
       \<and> (Close r = None \<longrightarrow>
            ret (Read unm st (Some a) (Some s)) = Some (joinError [ErrUpdateSettings, e])
            \<and> errors_Is (joinError [ErrUpdateSettings, e]) ErrUpdateSettings
            \<and> errors_Is (joinError [ErrUpdateSettings, e]) e)"
  using assms
  by (simp add: Read_past_guards Read_deferred_ret Read_deferred_trace Read_deferred_settings
      Read_step1_decoded Read_step2_update_error errors_Is_pair errors_Is_refl)

text \<open>
  The last case of the test: the updater sets the credentials and then fails; the
  attached validator does not run.
\<close>

theorem Read_update_failure_witness:
  "ret (Read test_Unmarshal
      (store_with \<lparr>jsonReader = Some (file_reader jsonContent None),
                   updater = Some (TestUpdater_Update
                     \<lparr>LogLevel = [], GoogleCredentials = ''something'',
                      UpdateError = Some (errorString ''updater error'')\<rparr>),
                   validator = Some TestSettings_Validate\<rparr>)
      (Some 0) (Some TestSettings_zero)) =
     Some (joinError [ErrUpdateSettings, errorString ''updater error''])
   \<and> settings_out (Read test_Unmarshal
      (store_with \<lparr>jsonReader = Some (file_reader jsonContent None),
                   updater = Some (TestUpdater_Update
                     \<lparr>LogLevel = [], GoogleCredentials = ''something'',
                      UpdateError = Some (errorString ''updater error'')\<rparr>),
                   validator = Some TestSettings_Validate\<rparr>)
      (Some 0) (Some TestSettings_zero)) =
     Some (TestSettings_zero\<lparr>Global_Log_Level := ''Debug'', Cors_Origins := [''*''],
                             Google_App_Credentials := ''something''\<rparr>)
   \<and> Ev_Validate \<notin> set (trace (Read test_Unmarshal
      (store_with \<lparr>jsonReader = Some (file_reader jsonContent None),
                   updater = Some (TestUpdater_Update
                     \<lparr>LogLevel = [], GoogleCredentials = ''something'',
                      UpdateError = Some (errorString ''updater error'')\<rparr>),
                   validator = Some TestSettings_Validate\<rparr>)
      (Some 0) (Some TestSettings_zero)))"
proof -
  let ?r = "file_reader jsonContent None"
  let ?u = "TestUpdater_Update \<lparr>LogLevel = [], GoogleCredentials = ''something'',
      UpdateError = Some (errorString ''updater error'')\<rparr>"
  let ?st = "store_with \<lparr>jsonReader = Some ?r, updater = Some ?u,
      validator = Some TestSettings_Validate\<rparr>"
  let ?s1 = "TestSettings_zero\<lparr>Global_Log_Level := ''Debug'', Cors_Origins := [''*'']\<rparr>"
  have 1: "jsonReader (objs ?st 0) = Some ?r" by (simp add: store_with_def)
  have 2: "io_ReadAll ?r = (jsonContent, None)" by (simp add: file_reader_def io_ReadAll_def)
  have 3: "test_Unmarshal jsonContent TestSettings_zero = (?s1, None)"
    by (simp add: test_Unmarshal_def)
  have 4: "updater (objs ?st 0) = Some ?u" by (simp add: store_with_def)
  have 5: "?u ?s1 = (?s1\<lparr>Google_App_Credentials := ''something''\<rparr>, Some (errorString ''updater error''))"
    by (simp add: TestUpdater_Update_def)
  have 6: "Close ?r = None" by (simp add: file_reader_def Close_def)
  show ?thesis
    using Read_update_failure [where unm = test_Unmarshal, OF 1 2 3 4 5] 6
    by simp
qed

text \<open>
  C6 as first stated does not hold: the updater runs and fails, the source then fails to
  close, and the result is the close error, which does not match \<open>ErrUpdateSettings\<close>.
\<close>

theorem Read_update_failure_counterexample:
  "TestUpdater_Update \<lparr>LogLevel = [], GoogleCredentials = [],
                       UpdateError = Some (errorString ''updater error'')\<rparr>
      (TestSettings_zero\<lparr>Global_Log_Level := ''Debug'', Cors_Origins := [''*'']\<rparr>) =
     (TestSettings_zero\<lparr>Global_Log_Level := ''Debug'', Cors_Origins := [''*'']\<rparr>,
      Some (errorString ''updater error''))
   \<and> trace (Read test_Unmarshal
      (store_with \<lparr>jsonReader = Some (file_reader jsonContent (Some (errorString ''close error''))),
                   updater = Some (TestUpdater_Update
                     \<lparr>LogLevel = [], GoogleCredentials = [],
                      UpdateError = Some (errorString ''updater error'')\<rparr>),
                   validator = None\<rparr>)
      (Some 0) (Some TestSettings_zero)) = [Ev_ReadAll, Ev_Unmarshal, Ev_Update, Ev_Close]
   \<and> ret (Read test_Unmarshal
      (store_with \<lparr>jsonReader = Some (file_reader jsonContent (Some (errorString ''close error''))),
                   updater = Some (TestUpdater_Update
                     \<lparr>LogLevel = [], GoogleCredentials = [],
                      UpdateError = Some (errorString ''updater error'')\<rparr>),
                   validator = None\<rparr>)
      (Some 0) (Some TestSettings_zero)) =
     Some (joinError [ErrClosingFile, errorString ''close error''])
   \<and> \<not> errors_Is (joinError [ErrClosingFile, errorString ''close error'']) ErrUpdateSettings"
  by (simp add: store_with_def file_reader_def test_Unmarshal_def Close_def io_ReadAll_def
      TestUpdater_Update_def Read_past_guards Read_deferred_ret Read_deferred_trace
      Read_step1_def Read_step2_def errors_Join_pair)

section \<open>A failing validator\<close>

text \<open>
  C4, as amended. When the attached validator is reached and returns \<open>errs\<close>, and the
  \<^verbatim>\<open>Close\<close> of the source succeeds, \<^verbatim>\<open>Read\<close> returns the join of
  \<open>ErrValidateSettings\<close> and \<open>errs\<close>: \<open>errs\<close> is a member of the result as it was returned,
  the underlying errors of the result are \<open>ErrValidateSettings\<close> followed by those of
  \<open>errs\<close>, in order and with repetitions, and its text is the sentinel's text, a line
  break, and the text of \<open>errs\<close>. With the test's validator, settings whose log level is
  set and whose credentials are empty give a result whose text contains the violation of
  the credentials and not that of the log level.
\<close>

theorem Read_validate_failure:
  fixes st :: "'s store" and stT :: "TestSettings store"
  assumes "jsonReader (objs st a) = Some r"
    and "io_ReadAll r = (data, None)"
    and "unm data s = (s1, None)"
    and "updater (objs st a) = None \<and> s2 = s1 \<or> (\<exists>u. updater (objs st a) = Some u \<and> u s1 = (s2, None))"
    and "validator (objs st a) = Some v"
    and "v s2 = (s3, Some errs)"
    and "Close r = None"
  shows "ret (Read unm st (Some a) (Some s)) = Some (joinError [ErrValidateSettings, errs])
       \<and> errors_Is (joinError [ErrValidateSettings, errs]) ErrValidateSettings
       \<and> errors_Is (joinError [ErrValidateSettings, errs]) errs
       \<and> causes (joinError [ErrValidateSettings, errs]) = ErrValidateSettings # causes errs
       \<and> Error (joinError [ErrValidateSettings, errs]) =
           Error ErrValidateSettings @ [CHR 0x0A] @ Error errs
       \<and> (jsonReader (objs stT b) = Some rT \<and> io_ReadAll rT = (dataT, None)
            \<and> unmT dataT t = (td, None)
            \<and> (updater (objs stT b) = None \<and> tu = td
                 \<or> (\<exists>u. updater (objs stT b) = Some u \<and> u td = (tu, None)))
            \<and> validator (objs stT b) = Some TestSettings_Validate
            \<and> Global_Log_Level tu \<noteq> [] \<and> Google_App_Credentials tu = []
            \<and> Close rT = None
          \<longrightarrow> ret (Read unmT stT (Some b) (Some t)) =
                Some (joinError [ErrValidateSettings,
                        joinError [errorString ''Google.App.Credentials is required'']])
              \<and> Contains (Error (joinError [ErrValidateSettings,
                        joinError [errorString ''Google.App.Credentials is required'']]))
                   ''Google.App.Credentials is required''
              \<and> \<not> Contains (Error (joinError [ErrValidateSettings,
                        joinError [errorString ''Google.App.Credentials is required'']]))
                   ''Global.Log.Level is required'')"
proof -
  have generic: "ret (Read unm st (Some a) (Some s)) = Some (joinError [ErrValidateSettings, errs])"
    using assms by (rule Read_reaches_validator)
  have fixture: "ret (Read unmT stT (Some b) (Some t)) =
                Some (joinError [ErrValidateSettings,
                        joinError [errorString ''Google.App.Credentials is required'']])"
    if "jsonReader (objs stT b) = Some rT" and "io_ReadAll rT = (dataT, None)"
      and "unmT dataT t = (td, None)"
      and "updater (objs stT b) = None \<and> tu = td
                 \<or> (\<exists>u. updater (objs stT b) = Some u \<and> u td = (tu, None))"
      and "validator (objs stT b) = Some TestSettings_Validate"
      and "Global_Log_Level tu \<noteq> []" and "Google_App_Credentials tu = []"
      and "Close rT = None"
    using that(1-5) TestSettings_Validate_credentials_only [OF that(6,7)] that(8)
    by (rule Read_reaches_validator)
  have msg: "Error (joinError [ErrValidateSettings, errs]) =
           Error ErrValidateSettings @ [CHR 0x0A] @ Error errs"
    by simp
  show ?thesis
    using generic fixture msg validate_text_has_credentials validate_text_lacks_level
    by (simp add: errors_Is_pair errors_Is_refl del: Error.simps)
qed

text \<open>
  The empty object leaves both fields empty, and both violations are in the result; the
  test's document sets the log level, and only the credentials are reported.
\<close>

theorem Read_validate_failure_witness:
  "ret (Read test_Unmarshal
      (store_with \<lparr>jsonReader = Some (file_reader ''{}'' None), updater = None,
                   validator = Some TestSettings_Validate\<rparr>)
      (Some 0) (Some TestSettings_zero)) =
     Some (joinError [ErrValidateSettings,
             joinError [joinError [errorString ''Global.Log.Level is required''],
                        errorString ''Google.App.Credentials is required'']])
   \<and> causes (joinError [ErrValidateSettings,
             joinError [joinError [errorString ''Global.Log.Level is required''],
                        errorString ''Google.App.Credentials is required'']]) =
       [ErrValidateSettings, errorString ''Global.Log.Level is required'',
        errorString ''Google.App.Credentials is required'']
   \<and> ret (Read test_Unmarshal
      (store_with \<lparr>jsonReader = Some (file_reader jsonContent None),
                   updater = Some (TestUpdater_Update \<lparr>LogLevel = [], GoogleCredentials = [], UpdateError = None\<rparr>),
                   validator = Some TestSettings_Validate\<rparr>)
      (Some 0) (Some TestSettings_zero)) =
     Some (joinError [ErrValidateSettings,
             joinError [errorString ''Google.App.Credentials is required'']])
   \<and> Contains (Error (joinError [ErrValidateSettings,
             joinError [errorString ''Google.App.Credentials is required'']]))
        ''Google.App.Credentials is required''
   \<and> Contains (Error (joinError [ErrValidateSettings,
             joinError [errorString ''Google.App.Credentials is required'']]))
        ''Global.Log.Level is required'' = False"
proof -
  let ?rA = "file_reader ''{}'' None"
  let ?stA = "store_with \<lparr>jsonReader = Some ?rA, updater = None,
      validator = Some TestSettings_Validate\<rparr>"
  let ?rB = "file_reader jsonContent None"
  let ?u = "TestUpdater_Update \<lparr>LogLevel = [], GoogleCredentials = [], UpdateError = None\<rparr>"
  let ?stB = "store_with \<lparr>jsonReader = Some ?rB, updater = Some ?u,
      validator = Some TestSettings_Validate\<rparr>"
  let ?t1 = "TestSettings_zero\<lparr>Global_Log_Level := ''Debug'', Cors_Origins := [''*'']\<rparr>"
  have a1: "jsonReader (objs ?stA 0) = Some ?rA" by (simp add: store_with_def)
  have a2: "io_ReadAll ?rA = (''{}'', None)" by (simp add: file_reader_def io_ReadAll_def)
  have a3: "test_Unmarshal ''{}'' TestSettings_zero = (TestSettings_zero, None)"
    by (simp add: test_Unmarshal_def jsonContent_def)
  have a4: "updater (objs ?stA 0) = None \<and> TestSettings_zero = TestSettings_zero
      \<or> (\<exists>u. updater (objs ?stA 0) = Some u \<and> u TestSettings_zero = (TestSettings_zero, None))"
    by (simp add: store_with_def)
  have a5: "validator (objs ?stA 0) = Some TestSettings_Validate" by (simp add: store_with_def)
  have a7: "Close ?rA = None" by (simp add: file_reader_def Close_def)
  have b: "jsonReader (objs ?stB 0) = Some ?rB \<and> io_ReadAll ?rB = (jsonContent, None)
      \<and> test_Unmarshal jsonContent TestSettings_zero = (?t1, None)
      \<and> updater (objs ?stB 0) = Some ?u \<and> ?u ?t1 = (?t1, None)
      \<and> validator (objs ?stB 0) = Some TestSettings_Validate
      \<and> Global_Log_Level ?t1 \<noteq> [] \<and> Google_App_Credentials ?t1 = []
      \<and> Close ?rB = None"
    by (simp add: store_with_def file_reader_def io_ReadAll_def test_Unmarshal_def
        TestUpdater_Update_def TestSettings_zero_def Close_def)
  show ?thesis
    using Read_validate_failure [where unm = test_Unmarshal and unmT = test_Unmarshal
        and stT = ?stB and b = 0 and rT = ?rB and dataT = jsonContent
        and t = TestSettings_zero and td = ?t1 and tu = ?t1,
        OF a1 a2 a3 a4 a5 TestSettings_Validate_zero a7] b
    by (simp del: Error.simps)
qed

text \<open>
  C4 as first stated does not hold: the validator runs and reports two violations, the
  source then fails to close, and the result is the close error, which does not match
  \<open>ErrValidateSettings\<close> and has neither violation among its underlying errors.
\<close>

theorem Read_validate_failure_counterexample:
  "TestSettings_Validate TestSettings_zero =
     (TestSettings_zero,
      Some (joinError [joinError [errorString ''Global.Log.Level is required''],
                       errorString ''Google.App.Credentials is required'']))
   \<and> trace (Read test_Unmarshal
      (store_with \<lparr>jsonReader = Some (file_reader ''{}'' (Some (errorString ''close error''))),
                   updater = None, validator = Some TestSettings_Validate\<rparr>)
      (Some 0) (Some TestSettings_zero)) = [Ev_ReadAll, Ev_Unmarshal, Ev_Validate, Ev_Close]
   \<and> ret (Read test_Unmarshal
      (store_with \<lparr>jsonReader = Some (file_reader ''{}'' (Some (errorString ''close error''))),
                   updater = None, validator = Some TestSettings_Validate\<rparr>)
      (Some 0) (Some TestSettings_zero)) =
     Some (joinError [ErrClosingFile, errorString ''close error''])
   \<and> \<not> errors_Is (joinError [ErrClosingFile, errorString ''close error'']) ErrValidateSettings
   \<and> causes (joinError [ErrClosingFile, errorString ''close error'']) =
       [ErrClosingFile, errorString ''close error'']"
  by (simp add: TestSettings_Validate_zero store_with_def file_reader_def test_Unmarshal_def
      jsonContent_def Close_def io_ReadAll_def Read_past_guards Read_deferred_ret
      Read_deferred_trace Read_step1_def Read_step2_def Read_step3_def errors_Join_pair)

section \<open>Construction\<close>

text \<open>
  C8. Called with a nil reader, the constructor opens the file named
  \<^verbatim>\<open>appsettings.json\<close> and nothing else decides its result. If the open fails with
  \<open>cause\<close>, the call returns a nil pointer and the join of \<open>ErrOpeningFile\<close> and \<open>cause\<close>,
  in which \<open>cause\<close> can be found and whose text ends with the text of \<open>cause\<close>; the store
  is unchanged. If the open succeeds, the call returns nil as error and a pointer to a new
  Composer that holds the file and has no plugin; the Composers already there are
  unchanged.
\<close>

theorem NewComposerWithReader_default:
  "DefaultAppSettingsFile = ''appsettings.json''
   \<and> NewComposer os_Open st = NewComposerWithReader os_Open st None
   \<and> (os_Open ''appsettings.json'' = Inl cause \<longrightarrow>
        NewComposerWithReader os_Open st None = (st, None, Some (joinError [ErrOpeningFile, cause]))
        \<and> errors_Is (joinError [ErrOpeningFile, cause]) ErrOpeningFile
        \<and> errors_Is (joinError [ErrOpeningFile, cause]) cause
        \<and> Error (joinError [ErrOpeningFile, cause]) = Error ErrOpeningFile @ [CHR 0x0A] @ Error cause)
   \<and> (os_Open ''appsettings.json'' = Inr f \<longrightarrow>
        (\<exists>st'. NewComposerWithReader os_Open st None = (st', Some (brk st), None)
           \<and> objs st' (brk st) = \<lparr>jsonReader = Some f, updater = None, validator = None\<rparr>
           \<and> (\<forall>b. b \<noteq> brk st \<longrightarrow> objs st' b = objs st b)))"
  by (simp add: NewComposerWithReader_def NewComposer_def DefaultAppSettingsFile_def
      errors_Join_pair errors_Is_pair errors_Is_refl)

text \<open>
  A working directory without the default file, and one with it.
\<close>

theorem NewComposerWithReader_default_witness:
  "NewComposerWithReader fs_without_default
      (store_with \<lparr>jsonReader = None, updater = None, validator = (None :: TestSettings Validator option)\<rparr>)
      None =
     (store_with \<lparr>jsonReader = None, updater = None, validator = None\<rparr>, None,
      Some (joinError [ErrOpeningFile,
              errorString ''open appsettings.json: no such file or directory'']))
   \<and> (\<exists>st'. NewComposerWithReader fs_with_default
      (store_with \<lparr>jsonReader = None, updater = None, validator = (None :: TestSettings Validator option)\<rparr>)
      None = (st', Some 1, None)
      \<and> objs st' 1 = \<lparr>jsonReader = Some (file_reader jsonContent None), updater = None, validator = None\<rparr>
      \<and> objs st' 0 = \<lparr>jsonReader = None, updater = None, validator = None\<rparr>)"
proof -
  let ?st = "store_with \<lparr>jsonReader = None, updater = None,
      validator = (None :: TestSettings Validator option)\<rparr>"
  have 1: "fs_without_default ''appsettings.json'' =
      Inl (errorString ''open appsettings.json: no such file or directory'')"
    by (simp add: fs_without_default_def)
  have 2: "fs_with_default ''appsettings.json'' = Inr (file_reader jsonContent None)"
    by (simp add: fs_with_default_def)
  have 3: "brk ?st = 1" "objs ?st 0 = \<lparr>jsonReader = None, updater = None, validator = None\<rparr>"
    by (simp_all add: store_with_def)
  show ?thesis
    using NewComposerWithReader_default [where os_Open = fs_without_default and st = ?st
          and cause = "errorString ''open appsettings.json: no such file or directory''"]
      NewComposerWithReader_default [where os_Open = fs_with_default and st = ?st
          and f = "file_reader jsonContent None"]
      1 2 3
    by auto
qed

section \<open>Attaching plugins\<close>

text \<open>
  C9. On a Composer, \<^verbatim>\<open>WithUpdater\<close> with any argument, nil included, returns the
  pointer it was called on and leaves a store in which that Composer has the argument as
  its updater, whatever it had before, and the reader and validator it had; every other
  Composer is unchanged. \<^verbatim>\<open>WithValidator\<close> does the same for the validator.
\<close>

theorem With_setters_frame:
  "(\<exists>st'. WithUpdater st (Some a) u = Some (st', Some a)
      \<and> updater (objs st' a) = u
      \<and> jsonReader (objs st' a) = jsonReader (objs st a)
      \<and> validator (objs st' a) = validator (objs st a)
      \<and> (\<forall>b. b \<noteq> a \<longrightarrow> objs st' b = objs st b)
      \<and> brk st' = brk st)
   \<and> (\<exists>st'. WithValidator st (Some a) v = Some (st', Some a)
      \<and> validator (objs st' a) = v
      \<and> jsonReader (objs st' a) = jsonReader (objs st a)
      \<and> updater (objs st' a) = updater (objs st a)
      \<and> (\<forall>b. b \<noteq> a \<longrightarrow> objs st' b = objs st b)
      \<and> brk st' = brk st)"
  by (simp add: WithUpdater_def WithValidator_def)

text \<open>
  Both setters called with nil on a Composer that has a validator and no updater.
\<close>

theorem With_setters_frame_witness:
  "(\<exists>st'. WithUpdater
      (store_with \<lparr>jsonReader = Some (file_reader jsonContent None), updater = None,
                   validator = Some TestSettings_Validate\<rparr>)
      (Some 0) None = Some (st', Some 0)
      \<and> objs st' 0 = \<lparr>jsonReader = Some (file_reader jsonContent None), updater = None,
                       validator = Some TestSettings_Validate\<rparr>
      \<and> objs st' 1 = \<lparr>jsonReader = None, updater = None, validator = None\<rparr>)
   \<and> (\<exists>st'. WithValidator
      (store_with \<lparr>jsonReader = Some (file_reader jsonContent None), updater = None,
                   validator = Some TestSettings_Validate\<rparr>)
      (Some 0) None = Some (st', Some 0)
      \<and> objs st' 0 = \<lparr>jsonReader = Some (file_reader jsonContent None), updater = None,
                       validator = None\<rparr>
      \<and> objs st' 1 = \<lparr>jsonReader = None, updater = None, validator = None\<rparr>)"
proof -
  let ?c = "\<lparr>jsonReader = Some (file_reader jsonContent None), updater = None,
      validator = Some TestSettings_Validate\<rparr>"
  have 0: "objs (store_with ?c) 0 = ?c"
    "objs (store_with ?c) 1 = \<lparr>jsonReader = None, updater = None, validator = None\<rparr>"
    by (simp_all add: store_with_def)
  obtain st1 where u: "WithUpdater (store_with ?c) (Some 0) None = Some (st1, Some 0)"
      "updater (objs st1 0) = None" "jsonReader (objs st1 0) = jsonReader (objs (store_with ?c) 0)"
      "validator (objs st1 0) = validator (objs (store_with ?c) 0)"
      "\<forall>b. b \<noteq> 0 \<longrightarrow> objs st1 b = objs (store_with ?c) b"
    using With_setters_frame [of "store_with ?c" 0 None None] by blast
  obtain st2 where v: "WithValidator (store_with ?c) (Some 0) None = Some (st2, Some 0)"
      "validator (objs st2 0) = None" "jsonReader (objs st2 0) = jsonReader (objs (store_with ?c) 0)"
      "updater (objs st2 0) = updater (objs (store_with ?c) 0)"
      "\<forall>b. b \<noteq> 0 \<longrightarrow> objs st2 b = objs (store_with ?c) b"
    using With_setters_frame [of "store_with ?c" 0 None None] by blast
  have "objs st1 0 = ?c" using u(2-4) 0(1) by (cases "objs st1 0") simp
  moreover have "objs st1 1 = \<lparr>jsonReader = None, updater = None, validator = None\<rparr>"
    using u(5) 0(2) by simp
  moreover have "objs st2 0 = \<lparr>jsonReader = Some (file_reader jsonContent None), updater = None,
      validator = None\<rparr>" using v(2-4) 0(1) by (cases "objs st2 0") simp
  moreover have "objs st2 1 = \<lparr>jsonReader = None, updater = None, validator = None\<rparr>"
    using v(5) 0(2) by simp
  ultimately show ?thesis using u(1) v(1) by blast
qed

end
